theory Spec2Isabelle
  imports Complex_Main "HOL-Library.Char_ord" "HOL-Library.List_Lexorder"
    "HOL-Library.Product_Lexorder"
begin

section \<open>Data model\<close>

text \<open>
  The dashboard of \<^verbatim>\<open>Data_Analyst_Analytics_company.py\<close> works on a pandas DataFrame read
  from a CSV file. A numeric column with gaps is a float64 column whose gaps are NaN; a
  text column is an object column holding Python strings, with NaN in the gaps.

  A float64 cell is NaN or a finite value. No operation of the program does arithmetic on
  a cell (cells are compared, truncated and parsed only), so a finite value is kept as the
  rational number it denotes. The two infinities are not represented.
\<close>

datatype float64 = NaN | Fin rat

text \<open>A cell of the \<^verbatim>\<open>User_Score\<close> column: a float, or a string such as \<^verbatim>\<open>'8.5'\<close> or \<^verbatim>\<open>'tbd'\<close>.\<close>

datatype obj = Float float64 | Str string

text \<open>
  One row. The six columns the program names, and the cells of every further column of
  the file (\<^verbatim>\<open>dropna()\<close> looks at all columns). A missing string cell is \<open>None\<close>.
\<close>

record row =
  Year_of_Release :: float64
  Genre :: "string option"
  Rating :: "string option"
  Platform :: "string option"
  Critic_Score :: float64
  User_Score :: obj
  Other_Columns :: "obj list"

type_synonym dataframe = "row list"

datatype error =
    ValueError          \<comment> \<open>\<^verbatim>\<open>astype(float)\<close> on a string that is not a number\<close>
  | IntCastingNaNError  \<comment> \<open>\<^verbatim>\<open>astype(int)\<close> on NaN\<close>
  | IndexError          \<comment> \<open>\<^verbatim>\<open>year_range[0]\<close>, \<^verbatim>\<open>year_range[1]\<close> on a shorter list\<close>

section \<open>clean\_data\<close>

text \<open>
  \<^verbatim>\<open>Year_of_Release >= threshold\<close> compares a float64 column with an integer, and the
  integer is converted to float64 for it. A float64 has 53 significant bits: a larger
  integer is rounded to the nearest float64, a tie going to the even significand.
  For a magnitude \<open>n\<close>, \<open>excess_bits n\<close> is the number of low bits that do not fit and
  \<open>round53 n\<close> the rounded magnitude; \<open>float64_of_int t\<close> is the integer value of the
  float64 that \<open>t\<close> becomes. As with the infinities, the largest finite float64 is not
  represented: an integer of any size is rounded to 53 bits.
\<close>

function excess_bits :: "int \<Rightarrow> nat" where
  "excess_bits n = (if n < 2 ^ 53 then 0 else Suc (excess_bits (n div 2)))"
  by pat_completeness auto
termination
  by (relation "measure nat") auto

declare excess_bits.simps [simp del]

definition round53 :: "int \<Rightarrow> int" where
  "round53 n =
     (let e = excess_bits n; q = n div 2 ^ e; r = n mod 2 ^ e
      in (if 2 ^ e < 2 * r \<or> (2 * r = 2 ^ e \<and> odd q) then q + 1 else q) * 2 ^ e)"

definition float64_of_int :: "int \<Rightarrow> int" where
  "float64_of_int t = (if t < 0 then - round53 (- t) else round53 t)"

text \<open>A comparison with NaN is false.\<close>

fun ge_threshold :: "float64 \<Rightarrow> int \<Rightarrow> bool" where
  "ge_threshold NaN t = False"
| "ge_threshold (Fin y) t = (of_int (float64_of_int t) \<le> y)"

definition query_year :: "dataframe \<Rightarrow> int \<Rightarrow> dataframe" where
  "query_year df threshold = filter (\<lambda>r. ge_threshold (Year_of_Release r) threshold) df"

text \<open>\<^verbatim>\<open>.replace('tbd', np.nan)\<close> on one cell.\<close>

fun replace_tbd :: "obj \<Rightarrow> obj" where
  "replace_tbd (Str s) = (if s = ''tbd'' then Float NaN else Str s)"
| "replace_tbd (Float f) = Float f"

text \<open>
  \<^verbatim>\<open>.astype(float)\<close> on one cell of an object column is Python's \<^verbatim>\<open>float(x)\<close>: a float is
  itself, a string is parsed. The parser is Python's own and is a parameter here:
  \<open>parse s = None\<close> when \<^verbatim>\<open>float(s)\<close> raises ValueError.
\<close>

fun astype_float :: "(string \<Rightarrow> float64 option) \<Rightarrow> obj \<Rightarrow> error + float64" where
  "astype_float parse (Float f) = Inr f"
| "astype_float parse (Str s) = (case parse s of None \<Rightarrow> Inl ValueError | Some f \<Rightarrow> Inr f)"

text \<open>Truncation toward zero, as the cast of a float to an integer does.\<close>

definition trunc :: "rat \<Rightarrow> int" where
  "trunc x = (if 0 \<le> x then \<lfloor>x\<rfloor> else \<lceil>x\<rceil>)"

text \<open>
  The cast of a finite float64 to int64. Within the int64 range it truncates. Beyond the
  range it raises nothing: numpy hands the value to the processor's conversion, which on
  x86-64 gives the least int64, \<open>- 2 ^ 63\<close>, for every value it cannot represent.
\<close>

definition cast_int64 :: "rat \<Rightarrow> int" where
  "cast_int64 x =
     (if - (2 ^ 63) \<le> trunc x \<and> trunc x < 2 ^ 63 then trunc x else - (2 ^ 63))"

text \<open>\<^verbatim>\<open>.astype(int)\<close> on one cell of a float64 column. pandas raises on NaN only.\<close>

fun astype_int :: "float64 \<Rightarrow> error + int" where
  "astype_int NaN = Inl IntCastingNaNError"
| "astype_int (Fin x) = Inr (cast_int64 x)"

text \<open>A conversion of a whole column: the first cell that fails raises for the column.\<close>

fun for_each :: "('a \<Rightarrow> error + 'b) \<Rightarrow> 'a list \<Rightarrow> error + 'b list" where
  "for_each f [] = Inr []"
| "for_each f (x # xs) =
     (case f x of
        Inl e \<Rightarrow> Inl e
      | Inr y \<Rightarrow> (case for_each f xs of Inl e \<Rightarrow> Inl e | Inr ys \<Rightarrow> Inr (y # ys)))"

text \<open>
  \<^verbatim>\<open>dataframe.loc[:, 'User_Score'] = dataframe['User_Score'].replace('tbd', np.nan).astype(float)\<close>
\<close>

definition set_user_score :: "(string \<Rightarrow> float64 option) \<Rightarrow> row \<Rightarrow> error + row" where
  "set_user_score parse r =
     (case astype_float parse (replace_tbd (User_Score r)) of
        Inl e \<Rightarrow> Inl e
      | Inr f \<Rightarrow> Inr (r\<lparr>User_Score := Float f\<rparr>))"

text \<open>
  \<^verbatim>\<open>dataframe.loc[:, 'Year_of_Release'] = dataframe['Year_of_Release'].astype(int)\<close>
\<close>

definition set_year :: "row \<Rightarrow> error + row" where
  "set_year r =
     (case astype_int (Year_of_Release r) of
        Inl e \<Rightarrow> Inl e
      | Inr n \<Rightarrow> Inr (r\<lparr>Year_of_Release := Fin (of_int n)\<rparr>))"

text \<open>\<^verbatim>\<open>isna\<close> on the cells, and \<^verbatim>\<open>dropna()\<close>: a row with a missing cell in any column goes.\<close>

definition isna_obj :: "obj \<Rightarrow> bool" where
  "isna_obj c = (c = Float NaN)"

definition has_na :: "row \<Rightarrow> bool" where
  "has_na r =
     (Year_of_Release r = NaN \<or> Genre r = None \<or> Rating r = None \<or> Platform r = None \<or>
      Critic_Score r = NaN \<or> isna_obj (User_Score r) \<or> list_ex isna_obj (Other_Columns r))"

definition dropna :: "dataframe \<Rightarrow> dataframe" where
  "dropna df = filter (\<lambda>r. \<not> has_na r) df"

definition clean_data ::
  "(string \<Rightarrow> float64 option) \<Rightarrow> dataframe \<Rightarrow> int \<Rightarrow> error + dataframe" where
  "clean_data parse dataframe threshold =
     (case for_each (set_user_score parse) (query_year dataframe threshold) of
        Inl e \<Rightarrow> Inl e
      | Inr df1 \<Rightarrow>
          (case for_each set_year df1 of
             Inl e \<Rightarrow> Inl e
           | Inr df2 \<Rightarrow> Inr (dropna df2)))"

section \<open>The filter of the three callbacks\<close>

text \<open>
  Each callback starts with the same expression over the cleaned table:
  \<^verbatim>\<open>df_cleaned[df_cleaned['Genre'].isin(genres) & df_cleaned['Rating'].isin(ratings) &
             df_cleaned['Year_of_Release'].between(year_range[0], year_range[1])]\<close>
\<close>

text \<open>\<^verbatim>\<open>isin\<close> on one cell of a string column: a missing cell is in no list of strings.\<close>

fun isin :: "string option \<Rightarrow> string list \<Rightarrow> bool" where
  "isin None vs = False"
| "isin (Some s) vs = (s \<in> set vs)"

text \<open>\<^verbatim>\<open>between(left, right)\<close>, both ends inclusive: \<^verbatim>\<open>(x >= left) & (x <= right)\<close>.\<close>

fun between :: "float64 \<Rightarrow> rat \<Rightarrow> rat \<Rightarrow> bool" where
  "between NaN left right = False"
| "between (Fin y) left right = (left \<le> y \<and> y \<le> right)"

text \<open>
  The selection arrives as two lists of strings and a list of numbers, of which the
  first two are read. Indexing a shorter list raises IndexError.
\<close>

fun filtered_df ::
  "dataframe \<Rightarrow> string list \<Rightarrow> string list \<Rightarrow> rat list \<Rightarrow> error + dataframe" where
  "filtered_df df_cleaned genres ratings (lo # hi # rest) =
     Inr (filter (\<lambda>r. isin (Genre r) genres \<and> isin (Rating r) ratings \<and>
                       between (Year_of_Release r) lo hi) df_cleaned)"
| "filtered_df df_cleaned genres ratings year_range = Inl IndexError"

section \<open>update\_game\_count\_text\<close>

text \<open>Python's \<^verbatim>\<open>str\<close> of a non-negative integer, as the f-string formats the count.\<close>

definition digit :: "nat \<Rightarrow> char" where
  "digit d = ''0123456789'' ! d"

function str_nat :: "nat \<Rightarrow> string" where
  "str_nat n = (if n < 10 then [digit n] else str_nat (n div 10) @ [digit (n mod 10)])"
  by pat_completeness auto
termination
  by (relation "measure id") auto

declare str_nat.simps [simp del]

text \<open>\<^verbatim>\<open>game_count = len(filtered_df)\<close>\<close>

definition game_count :: "dataframe \<Rightarrow> nat" where
  "game_count filtered = length filtered"

definition update_game_count_text ::
  "dataframe \<Rightarrow> string list \<Rightarrow> string list \<Rightarrow> rat list \<Rightarrow> error + string" where
  "update_game_count_text df_cleaned genres ratings year_range =
     (case filtered_df df_cleaned genres ratings year_range of
        Inl e \<Rightarrow> Inl e
      | Inr filtered \<Rightarrow>
          Inr (''Number of the selected games is: '' @ str_nat (game_count filtered)))"

text \<open>Reading a decimal numeral back, to say which number a text shows.\<close>

definition digit_value :: "char \<Rightarrow> nat" where
  "digit_value c = of_char c - 48"

definition read_nat :: "string \<Rightarrow> nat" where
  "read_nat s = foldl (\<lambda>acc c. 10 * acc + digit_value c) 0 s"

section \<open>update\_game\_release\_area\_plot\<close>

text \<open>
  \<^verbatim>\<open>filtered_df.groupby(['Year_of_Release', 'Platform']).size().reset_index(name='Number_of_Games')\<close>

  \<^verbatim>\<open>groupby\<close> runs with its defaults: \<^verbatim>\<open>dropna=True\<close> leaves out every row with a missing
  key, and \<^verbatim>\<open>sort=True\<close> sorts the groups by their keys, the year first and the platform
  second. Strings compare as Python's do, character by character. \<^verbatim>\<open>size()\<close> counts the
  rows of each group, and \<^verbatim>\<open>reset_index\<close> turns the result into rows
  (year, platform, number of games).
\<close>

type_synonym group_key = "rat \<times> string"

fun key_of :: "row \<Rightarrow> group_key option" where
  "key_of r =
     (case Year_of_Release r of
        NaN \<Rightarrow> None
      | Fin y \<Rightarrow> (case Platform r of None \<Rightarrow> None | Some p \<Rightarrow> Some (y, p)))"

definition groupby_size :: "dataframe \<Rightarrow> (group_key \<times> nat) list" where
  "groupby_size df =
     (let keys = List.map_filter key_of df
      in map (\<lambda>k. (k, count_list keys k)) (sort (remdups keys)))"

text \<open>
  The callback goes on to draw \<^verbatim>\<open>grouped_df\<close> as an area chart; the model returns the
  table that is drawn.
\<close>

definition update_game_release_area_plot ::
  "dataframe \<Rightarrow> string list \<Rightarrow> string list \<Rightarrow> rat list \<Rightarrow> error + (group_key \<times> nat) list" where
  "update_game_release_area_plot df_cleaned genres ratings year_range =
     (case filtered_df df_cleaned genres ratings year_range of
        Inl e \<Rightarrow> Inl e
      | Inr filtered \<Rightarrow> Inr (groupby_size filtered))"

section \<open>Auxiliary notions for the statements\<close>

text \<open>
  The rows that cleaning leaves as they are: the year is a whole number within int64 and
  at or above the threshold as the comparison sees it, the user score is a finite number,
  no cell is missing.
\<close>

definition cleaned_row :: "int \<Rightarrow> row \<Rightarrow> bool" where
  "cleaned_row threshold r =
     ((\<exists>n. Year_of_Release r = Fin (of_int n) \<and> float64_of_int threshold \<le> n \<and>
           - (2 ^ 63) \<le> n \<and> n < 2 ^ 63) \<and>
      (\<exists>x. User_Score r = Float (Fin x)) \<and> \<not> has_na r)"

text \<open>No release year of the table is \<open>2 ^ 63\<close> or more, where the cast to int64 overflows.\<close>

definition years_below_2_63 :: "dataframe \<Rightarrow> bool" where
  "years_below_2_63 df =
     list_all (\<lambda>r. case Year_of_Release r of NaN \<Rightarrow> True | Fin y \<Rightarrow> y < 2 ^ 63) df"

text \<open>
  The order of groups as the specification words it: years ascending, and within one
  year the platforms in the order in which they first occur in the filtered subset.
  \<open>first_seen p sub\<close> is the position of the first row of \<open>sub\<close> with platform \<open>p\<close>.
\<close>

definition first_seen :: "string \<Rightarrow> dataframe \<Rightarrow> nat" where
  "first_seen p sub = length (takeWhile (\<lambda>r. Platform r \<noteq> Some p) sub)"

definition spec_year_then_first_seen :: "dataframe \<Rightarrow> (group_key \<times> nat) list \<Rightarrow> bool" where
  "spec_year_then_first_seen sub groups =
     sorted_wrt (\<lambda>g h. fst (fst g) < fst (fst h) \<or>
                       (fst (fst g) = fst (fst h) \<and>
                        first_seen (snd (fst g)) sub \<le> first_seen (snd (fst h)) sub))
       groups"

text \<open>The order of groups that sorting by key gives: by year, then by platform name.\<close>

definition key_less :: "group_key \<Rightarrow> group_key \<Rightarrow> bool" where
  "key_less k k' = (fst k < fst k' \<or> (fst k = fst k' \<and> snd k < snd k'))"

subsection \<open>Sample data\<close>

text \<open>
  The three games of the specification's scenario, as rows of a cleaned table, and a raw
  table that cleans to them. \<open>sample_parse\<close> agrees with Python's \<^verbatim>\<open>float\<close> on the strings
  it knows, and on \<^verbatim>\<open>'n/a'\<close>, which is no number.
\<close>

definition game_ps2 :: row where
  "game_ps2 = \<lparr>Year_of_Release = Fin 2005, Genre = Some ''Action'', Rating = Some ''E'',
     Platform = Some ''PS2'', Critic_Score = Fin 80, User_Score = Float (Fin (17 / 2)),
     Other_Columns = [Str ''Game A'']\<rparr>"

definition game_x360 :: row where
  "game_x360 = \<lparr>Year_of_Release = Fin 2010, Genre = Some ''Action'', Rating = Some ''E'',
     Platform = Some ''X360'', Critic_Score = Fin 90, User_Score = Float (Fin 9),
     Other_Columns = [Str ''Game B'']\<rparr>"

definition game_ps3 :: row where
  "game_ps3 = \<lparr>Year_of_Release = Fin 2010, Genre = Some ''RPG'', Rating = Some ''M'',
     Platform = Some ''PS3'', Critic_Score = Fin 70, User_Score = Float (Fin 7),
     Other_Columns = [Str ''Game C'']\<rparr>"

definition scenario_table :: dataframe where
  "scenario_table = [game_ps2, game_x360, game_ps3]"

definition sample_parse :: "string \<Rightarrow> float64 option" where
  "sample_parse s =
     (if s = ''8.5'' then Some (Fin (17 / 2))
      else if s = ''9.0'' then Some (Fin 9)
      else if s = ''nan'' then Some NaN
      else None)"

definition raw_table :: dataframe where
  "raw_table =
     [game_ps2\<lparr>User_Score := Str ''8.5''\<rparr>,
      game_ps2\<lparr>Year_of_Release := Fin 1999\<rparr>,
      game_x360\<lparr>User_Score := Str ''9.0'', Year_of_Release := Fin (4021 / 2)\<rparr>,
      game_x360\<lparr>User_Score := Str ''tbd''\<rparr>,
      game_ps3\<lparr>Year_of_Release := NaN, User_Score := Str ''n/a''\<rparr>,
      game_ps3,
      game_ps3\<lparr>Rating := None\<rparr>,
      game_ps2\<lparr>User_Score := Str ''nan''\<rparr>,
      game_x360\<lparr>Other_Columns := [Float NaN]\<rparr>]"

text \<open>
  Three more rows: a game with the release year \<open>10 ^ 19\<close>, beyond int64; the same game
  with the year \<open>- 2 ^ 63\<close>; and a game with the year \<open>2 ^ 53\<close>.
\<close>

definition game_far_future :: row where
  "game_far_future = game_ps2\<lparr>Year_of_Release := Fin 10000000000000000000\<rparr>"

definition game_wrapped :: row where
  "game_wrapped = game_ps2\<lparr>Year_of_Release := Fin (- 9223372036854775808)\<rparr>"

definition game_2_53 :: row where
  "game_2_53 = game_ps2\<lparr>Year_of_Release := Fin 9007199254740992\<rparr>"

section \<open>Properties of clean\_data\<close>

subsection \<open>Column conversions\<close>

lemma for_each_fixed:
  assumes "\<And>x. x \<in> set xs \<Longrightarrow> f x = Inr x"
  shows "for_each f xs = Inr xs"
  using assms by (induction xs) simp_all

lemma for_each_set:
  "for_each f xs = Inr ys \<Longrightarrow> y \<in> set ys \<Longrightarrow> \<exists>x \<in> set xs. f x = Inr y"
proof (induction xs arbitrary: ys)
  case Nil
  then show ?case by simp
next
  case (Cons x xs)
  from Cons.prems(1) obtain z zs
    where fx: "f x = Inr z" and rest: "for_each f xs = Inr zs" and ys: "ys = z # zs"
    by (auto split: sum.splits)
  show ?case
  proof (cases "y = z")
    case True
    with fx show ?thesis by simp
  next
    case False
    with Cons.prems(2) ys have "y \<in> set zs" by simp
    with rest have "\<exists>x \<in> set xs. f x = Inr y" by (rule Cons.IH)
    then show ?thesis by simp
  qed
qed

lemma for_each_member:
  assumes "for_each f xs = Inr ys" and "y \<in> set ys"
  obtains x where "x \<in> set xs" and "f x = Inr y"
  using for_each_set [OF assms] by blast

lemma trunc_ge:
  assumes "of_int t \<le> x"
  shows "t \<le> trunc x"
proof (cases "0 \<le> x")
  case True
  with assms show ?thesis by (simp add: trunc_def le_floor_iff)
next
  case False
  have "of_int t \<le> (of_int \<lceil>x\<rceil> :: rat)"
    using assms le_of_int_ceiling [of x] by (rule order_trans)
  then have "t \<le> \<lceil>x\<rceil>" by simp
  with False show ?thesis by (simp add: trunc_def)
qed

lemma trunc_less:
  assumes "x < of_int z" and "0 < z"
  shows "trunc x < z"
proof (cases "0 \<le> x")
  case True
  with assms(1) show ?thesis by (simp add: trunc_def floor_less_iff)
next
  case False
  then have c: "\<lceil>x\<rceil> \<le> 0" by (simp add: ceiling_le_iff)
  from False have "trunc x = \<lceil>x\<rceil>" by (simp add: trunc_def)
  with c assms(2) show ?thesis by linarith
qed

lemma trunc_of_int [simp]: "trunc (of_int n) = n"
  by (simp add: trunc_def)

lemma cast_int64_range: "- (2 ^ 63) \<le> cast_int64 x \<and> cast_int64 x < 2 ^ 63"
  by (simp add: cast_int64_def)

lemma cast_int64_of_int:
  "- (2 ^ 63) \<le> n \<Longrightarrow> n < 2 ^ 63 \<Longrightarrow> cast_int64 (of_int n) = n"
  by (simp add: cast_int64_def)

text \<open>Below \<open>2 ^ 63\<close> the cast keeps a value at or above an integer bound.\<close>

lemma cast_int64_ge:
  assumes "of_int t \<le> x" and "x < 2 ^ 63"
  shows "t \<le> cast_int64 x"
proof -
  from assms(1) have t: "t \<le> trunc x" by (rule trunc_ge)
  have "x < of_int (2 ^ 63)" using assms(2) by simp
  then have up: "trunc x < 2 ^ 63" by (rule trunc_less) simp
  show ?thesis
  proof (cases "- (2 ^ 63) \<le> trunc x")
    case True
    with up t show ?thesis by (simp add: cast_int64_def)
  next
    case False
    with t show ?thesis by (simp add: cast_int64_def)
  qed
qed

lemma round53_small: "n < 2 ^ 53 \<Longrightarrow> round53 n = n"
  by (simp add: round53_def excess_bits.simps [of n])

text \<open>An integer of magnitude below \<open>2 ^ 53\<close> is a float64 exactly.\<close>

lemma float64_of_int_exact:
  assumes "- (2 ^ 53) < t" and "t < 2 ^ 53"
  shows "float64_of_int t = t"
proof (cases "t < 0")
  case True
  from assms(1) have "- t < 2 ^ 53" by simp
  then have "round53 (- t) = - t" by (rule round53_small)
  with True show ?thesis by (simp add: float64_of_int_def)
next
  case False
  from assms(2) have "round53 t = t" by (rule round53_small)
  with False show ?thesis by (simp add: float64_of_int_def)
qed

lemma set_user_score_Inr:
  assumes "set_user_score parse r = Inr r'"
  obtains f where "r' = r\<lparr>User_Score := Float f\<rparr>"
  using assms by (auto simp: set_user_score_def split: sum.splits)

lemma set_year_Inr:
  assumes "set_year r = Inr r'"
  obtains y where "Year_of_Release r = Fin y"
    and "r' = r\<lparr>Year_of_Release := Fin (of_int (cast_int64 y))\<rparr>"
  using assms
  by (cases "Year_of_Release r") (auto simp: set_year_def split: sum.splits)

subsection \<open>Rows of a cleaned table\<close>

text \<open>
  Where a row of the cleaned table comes from: a row of the raw table that passed the
  year query, with its user score converted and its year cast.
\<close>

lemma clean_data_origin:
  assumes "clean_data parse raw threshold = Inr out" and "r \<in> set out"
  obtains r0 f y where "r0 \<in> set raw"
    and "Year_of_Release r0 = Fin y" and "of_int (float64_of_int threshold) \<le> y"
    and "r = r0\<lparr>User_Score := Float f, Year_of_Release := Fin (of_int (cast_int64 y))\<rparr>"
    and "\<not> has_na r"
proof -
  from assms(1) obtain df1 df2
    where df1: "for_each (set_user_score parse) (query_year raw threshold) = Inr df1"
      and df2: "for_each set_year df1 = Inr df2"
      and out: "out = dropna df2"
    by (auto simp: clean_data_def split: sum.splits)
  from assms(2) out have r2: "r \<in> set df2" and na: "\<not> has_na r"
    by (simp_all add: dropna_def)
  from df2 r2 obtain r1 where r1: "r1 \<in> set df1" and sy: "set_year r1 = Inr r"
    by (rule for_each_member)
  from df1 r1 obtain r0 where r0: "r0 \<in> set (query_year raw threshold)"
    and su: "set_user_score parse r0 = Inr r1"
    by (rule for_each_member)
  from su obtain f where r1_eq: "r1 = r0\<lparr>User_Score := Float f\<rparr>"
    by (rule set_user_score_Inr)
  from sy obtain y where y: "Year_of_Release r1 = Fin y"
    and r_eq: "r = r1\<lparr>Year_of_Release := Fin (of_int (cast_int64 y))\<rparr>"
    by (rule set_year_Inr)
  from r0 have in_raw: "r0 \<in> set raw" and "ge_threshold (Year_of_Release r0) threshold"
    by (simp_all add: query_year_def)
  with y r1_eq have y0: "Year_of_Release r0 = Fin y"
    and ge: "of_int (float64_of_int threshold) \<le> y"
    by simp_all
  from r_eq r1_eq
  have "r = r0\<lparr>User_Score := Float f, Year_of_Release := Fin (of_int (cast_int64 y))\<rparr>"
    by simp
  with in_raw y0 ge show thesis using na by (rule that)
qed

text \<open>The part of C2 that holds for every input: whole-number years, no missing cell.\<close>

lemma clean_data_fields:
  assumes "clean_data parse raw threshold = Inr out" and "r \<in> set out"
  shows "(\<exists>n. Year_of_Release r = Fin (of_int n) \<and> - (2 ^ 63) \<le> n \<and> n < 2 ^ 63) \<and>
         (\<exists>x. User_Score r = Float (Fin x)) \<and> \<not> has_na r"
proof -
  from assms obtain r0 f y
    where r_eq: "r = r0\<lparr>User_Score := Float f, Year_of_Release := Fin (of_int (cast_int64 y))\<rparr>"
      and na: "\<not> has_na r"
    by (rule clean_data_origin)
  from r_eq have us: "User_Score r = Float f" by simp
  with na have "f \<noteq> NaN" by (auto simp: has_na_def isna_obj_def)
  then obtain x where "f = Fin x" by (cases f) auto
  with us have "\<exists>x. User_Score r = Float (Fin x)" by simp
  moreover from r_eq have "Year_of_Release r = Fin (of_int (cast_int64 y))" by simp
  ultimately show ?thesis using na cast_int64_range [of y] by blast
qed

lemma years_below_2_63_D:
  "years_below_2_63 df \<Longrightarrow> r \<in> set df \<Longrightarrow> Year_of_Release r = Fin y \<Longrightarrow> y < 2 ^ 63"
  by (auto simp: years_below_2_63_def list_all_iff)

text \<open>Without overflow, the year of a cleaned row is at or above the converted threshold.\<close>

lemma clean_data_rows:
  assumes "clean_data parse raw threshold = Inr out" and "years_below_2_63 raw"
    and "r \<in> set out"
  shows "cleaned_row threshold r"
proof -
  from assms(1,3) obtain r0 f y where r0: "r0 \<in> set raw"
    and y0: "Year_of_Release r0 = Fin y"
    and ge: "of_int (float64_of_int threshold) \<le> y"
    and r_eq: "r = r0\<lparr>User_Score := Float f, Year_of_Release := Fin (of_int (cast_int64 y))\<rparr>"
    by (rule clean_data_origin)
  from assms(2) r0 y0 have "y < 2 ^ 63" by (rule years_below_2_63_D)
  with ge have "float64_of_int threshold \<le> cast_int64 y" by (rule cast_int64_ge)
  moreover from r_eq have "Year_of_Release r = Fin (of_int (cast_int64 y))" by simp
  moreover note cast_int64_range [of y] clean_data_fields [OF assms(1,3)]
  ultimately show ?thesis unfolding cleaned_row_def by blast
qed

lemma cleaned_row_fixed:
  assumes "cleaned_row threshold r"
  shows "ge_threshold (Year_of_Release r) threshold"
    and "set_user_score parse r = Inr r"
    and "set_year r = Inr r"
    and "\<not> has_na r"
  using assms
  by (auto simp: cleaned_row_def set_user_score_def set_year_def cast_int64_of_int)

lemma clean_data_fixed:
  assumes "\<And>r. r \<in> set df \<Longrightarrow> cleaned_row threshold r"
  shows "clean_data parse df threshold = Inr df"
proof -
  have q: "query_year df threshold = df"
    unfolding query_year_def using assms by (auto simp: filter_id_conv intro: cleaned_row_fixed(1))
  have u: "for_each (set_user_score parse) df = Inr df"
    using assms by (intro for_each_fixed cleaned_row_fixed(2))
  have y: "for_each set_year df = Inr df"
    using assms by (intro for_each_fixed cleaned_row_fixed(3))
  have d: "dropna df = df"
    unfolding dropna_def using assms by (auto simp: filter_id_conv dest: cleaned_row_fixed(4))
  show ?thesis by (simp add: clean_data_def q u y d)
qed

text \<open>The sample raw table cleans to the scenario table, which is itself clean.\<close>

lemma clean_raw_table: "clean_data sample_parse raw_table 2000 = Inr scenario_table"
  by code_simp

lemma clean_scenario_table: "clean_data sample_parse scenario_table 2000 = Inr scenario_table"
  by code_simp

lemma raw_table_years: "years_below_2_63 raw_table"
  by code_simp

text \<open>
  C2, as the specification states it, fails in two ways. A release year of \<open>10 ^ 19\<close>
  passes the threshold 2000 and is then cast to int64, which gives \<open>- 2 ^ 63\<close>: the
  cleaned table holds a year below the threshold. And the threshold \<open>2 ^ 53 + 1\<close> is
  compared as the float64 \<open>2 ^ 53\<close>, so a release year of \<open>2 ^ 53\<close> stays in the table.
\<close>

theorem year_below_threshold_counterexample:
  "clean_data sample_parse [game_far_future] 2000 =
     Inr [game_ps2\<lparr>Year_of_Release := Fin (- 9223372036854775808)\<rparr>] \<and>
   clean_data sample_parse [game_2_53] 9007199254740993 =
     Inr [game_ps2\<lparr>Year_of_Release := Fin 9007199254740992\<rparr>]"
  by code_simp

text \<open>
  C2, amended. Every record of \<open>clean(rawTable, threshold)\<close> has a whole-number release
  year and no missing value in the year, genre, rating, platform, critic score or user
  score. Its year is at or above the threshold when the threshold is a float64 exactly
  (as every integer of magnitude below \<open>2 ^ 53\<close> is) and no release year of the raw table
  reaches \<open>2 ^ 63\<close>.
\<close>

theorem clean_data_year_and_fields:
  assumes "clean_data parse raw threshold = Inr out"
  shows "(\<forall>r \<in> set out.
            (\<exists>n. Year_of_Release r = Fin (of_int n)) \<and>
            Genre r \<noteq> None \<and> Rating r \<noteq> None \<and> Platform r \<noteq> None \<and>
            Critic_Score r \<noteq> NaN \<and> (\<exists>x. User_Score r = Float (Fin x))) \<and>
         (float64_of_int threshold = threshold \<and> years_below_2_63 raw \<longrightarrow>
            (\<forall>r \<in> set out. \<exists>n. Year_of_Release r = Fin (of_int n) \<and> threshold \<le> n))"
proof (rule conjI)
  show "\<forall>r \<in> set out.
      (\<exists>n. Year_of_Release r = Fin (of_int n)) \<and>
      Genre r \<noteq> None \<and> Rating r \<noteq> None \<and> Platform r \<noteq> None \<and>
      Critic_Score r \<noteq> NaN \<and> (\<exists>x. User_Score r = Float (Fin x))"
  proof
    fix r assume "r \<in> set out"
    with assms
    have "(\<exists>n. Year_of_Release r = Fin (of_int n) \<and> - (2 ^ 63) \<le> n \<and> n < 2 ^ 63) \<and>
          (\<exists>x. User_Score r = Float (Fin x)) \<and> \<not> has_na r"
      by (rule clean_data_fields)
    then show "(\<exists>n. Year_of_Release r = Fin (of_int n)) \<and>
        Genre r \<noteq> None \<and> Rating r \<noteq> None \<and> Platform r \<noteq> None \<and>
        Critic_Score r \<noteq> NaN \<and> (\<exists>x. User_Score r = Float (Fin x))"
      by (auto simp: has_na_def)
  qed
  show "float64_of_int threshold = threshold \<and> years_below_2_63 raw \<longrightarrow>
      (\<forall>r \<in> set out. \<exists>n. Year_of_Release r = Fin (of_int n) \<and> threshold \<le> n)"
  proof (intro impI ballI)
    fix r assume exact: "float64_of_int threshold = threshold \<and> years_below_2_63 raw"
      and r: "r \<in> set out"
    from exact have "years_below_2_63 raw" by simp
    with assms have "cleaned_row threshold r" using r by (rule clean_data_rows)
    with exact show "\<exists>n. Year_of_Release r = Fin (of_int n) \<and> threshold \<le> n"
      by (auto simp: cleaned_row_def)
  qed
qed

theorem clean_data_year_and_fields_witness:
  "clean_data sample_parse raw_table 2000 = Inr scenario_table \<and>
   (\<exists>n. Year_of_Release game_x360 = Fin (of_int n) \<and> 2000 \<le> n) \<and>
   Genre game_x360 \<noteq> None \<and> Rating game_x360 \<noteq> None \<and> Platform game_x360 \<noteq> None \<and>
   Critic_Score game_x360 \<noteq> NaN \<and> (\<exists>x. User_Score game_x360 = Float (Fin x))"
proof -
  have mem: "game_x360 \<in> set scenario_table"
    by (simp add: scenario_table_def)
  have exact: "float64_of_int 2000 = 2000"
    by (rule float64_of_int_exact) simp_all
  from clean_data_year_and_fields [OF clean_raw_table] mem exact raw_table_years clean_raw_table
  show ?thesis by blast
qed

text \<open>
  C6, as the specification states it, fails. The release year \<open>10 ^ 19\<close> is cast to
  \<open>- 2 ^ 63\<close> by the first cleaning; the second cleaning compares that with the threshold
  2000 and drops the row.
\<close>

theorem clean_twice_counterexample:
  "clean_data sample_parse [game_far_future] 2000 = Inr [game_wrapped] \<and>
   clean_data sample_parse [game_wrapped] 2000 = Inr []"
  by code_simp

text \<open>
  C6, amended. When no release year of the raw table reaches \<open>2 ^ 63\<close>, cleaning is
  idempotent: cleaning the output of \<open>clean\<close> again with the same threshold returns that
  output unchanged.
\<close>

theorem clean_data_idempotent:
  assumes "clean_data parse raw threshold = Inr out" and "years_below_2_63 raw"
  shows "clean_data parse out threshold = Inr out"
  using assms by (intro clean_data_fixed) (rule clean_data_rows)

theorem clean_data_idempotent_witness:
  "clean_data sample_parse raw_table 2000 = Inr scenario_table \<and>
   clean_data sample_parse scenario_table 2000 = Inr scenario_table"
  using clean_data_idempotent [OF clean_raw_table raw_table_years] clean_raw_table by simp

section \<open>Properties of the filter\<close>



lemma filtered_df_subset:
  "filtered_df tbl genres ratings year_range = Inr sub \<Longrightarrow> set sub \<subseteq> set tbl"
  by (induction tbl genres ratings year_range rule: filtered_df.induct) auto

text \<open>The scenario of the specification: action games rated E, from 2000 to 2016.\<close>

lemma scenario_filter:
  "filtered_df scenario_table [''Action''] [''E''] [2000, 2016] = Inr [game_ps2, game_x360]"
  by code_simp










section \<open>Properties of the game count\<close>

lemma digit_value_digit: "d < 10 \<Longrightarrow> digit_value (digit d) = d"
proof -
  assume "d < 10"
  then have "d \<in> {0, 1, 2, 3, 4, 5, 6, 7, 8, 9}" by auto
  then show ?thesis by (auto simp: digit_value_def digit_def)
qed

lemma read_nat_snoc: "read_nat (s @ [c]) = 10 * read_nat s + digit_value c"
  by (simp add: read_nat_def)

lemma read_nat_str_nat: "read_nat (str_nat n) = n"
proof (induction n rule: str_nat.induct)
  case (1 n)
  show ?case
  proof (cases "n < 10")
    case True
    then show ?thesis
      by (subst str_nat.simps) (simp add: read_nat_def digit_value_digit)
  next
    case False
    with 1 have "read_nat (str_nat (n div 10)) = n div 10" by simp
    with False show ?thesis
      by (subst str_nat.simps) (simp add: read_nat_snoc digit_value_digit)
  qed
qed

text \<open>
  C3. The count of games is the length of the filtered subset: it is the number that
  the callback writes into its text, and reading that numeral back gives the length.
\<close>

theorem game_count_is_length:
  assumes "filtered_df tbl genres ratings year_range = Inr sub"
  shows "game_count sub = length sub \<and>
         update_game_count_text tbl genres ratings year_range =
           Inr (''Number of the selected games is: '' @ str_nat (length sub)) \<and>
         read_nat (str_nat (length sub)) = length sub"
  using assms by (simp add: game_count_def update_game_count_text_def read_nat_str_nat)

theorem game_count_is_length_witness:
  "game_count [game_ps2, game_x360] = 2 \<and>
   update_game_count_text scenario_table [''Action''] [''E''] [2000, 2016] =
     Inr ''Number of the selected games is: 2''"
proof -
  have two: "str_nat (length [game_ps2, game_x360]) = ''2''" by code_simp
  note shown = game_count_is_length [OF scenario_filter]
  have "game_count [game_ps2, game_x360] = 2"
    using shown by simp
  moreover have "update_game_count_text scenario_table [''Action''] [''E''] [2000, 2016] =
      Inr ''Number of the selected games is: 2''"
    using shown unfolding two by simp
  ultimately show ?thesis by simp
qed

section \<open>Properties of the grouping\<close>

lemma groupby_size_keys:
  "map fst (groupby_size df) = sort (remdups (List.map_filter key_of df))"
  by (simp add: groupby_size_def Let_def comp_def)

lemma groupby_size_counts:
  "map snd (groupby_size df) =
     map (count_list (List.map_filter key_of df)) (sort (remdups (List.map_filter key_of df)))"
  by (simp add: groupby_size_def Let_def comp_def)

lemma sum_list_counts: "sum_list (map (count_list ks) (sort (remdups ks))) = length ks"
proof -
  have "sum_list (map (count_list ks) (sort (remdups ks))) = sum (count_list ks) (set ks)"
    by (simp add: sum_list_distinct_conv_sum_set)
  also have "\<dots> = length ks"
    by (rule sum_count_set) simp_all
  finally show ?thesis .
qed

lemma length_map_filter_all:
  assumes "\<And>x. x \<in> set xs \<Longrightarrow> f x \<noteq> None"
  shows "length (List.map_filter f xs) = length xs"
  using assms by (induction xs) (auto split: option.splits)

lemma key_of_Some_iff:
  "key_of r = Some k \<longleftrightarrow> Year_of_Release r = Fin (fst k) \<and> Platform r = Some (snd k)"
  by (cases k) (auto split: float64.splits option.splits)

lemma set_map_filter: "set (List.map_filter f xs) = {y. \<exists>x \<in> set xs. f x = Some y}"
  by (induction xs) (auto split: option.splits)

lemma count_list_map_filter:
  "count_list (List.map_filter f xs) k = length (filter (\<lambda>x. f x = Some k) xs)"
  by (induction xs) (auto split: option.splits)

lemma groupby_size_total_general:
  assumes "\<And>r. r \<in> set sub \<Longrightarrow> Year_of_Release r \<noteq> NaN \<and> Platform r \<noteq> None"
  shows "sum_list (map snd (groupby_size sub)) = length sub"
proof -
  have "key_of r \<noteq> None" if "r \<in> set sub" for r
    using assms [OF that] by (auto split: float64.splits option.splits)
  then have "length (List.map_filter key_of sub) = length sub"
    by (rule length_map_filter_all)
  then show ?thesis
    by (simp add: groupby_size_counts sum_list_counts)
qed

text \<open>The groups of the scenario's filtered subset, and of the two games of 2010.\<close>

lemma scenario_groups:
  "groupby_size [game_ps2, game_x360] = [((2005, ''PS2''), 1), ((2010, ''X360''), 1)]"
  by code_simp

lemma groups_of_2010:
  "groupby_size [game_x360, game_ps3] = [((2010, ''PS3''), 1), ((2010, ''X360''), 1)]"
  by code_simp

text \<open>
  C4. For a filtered subset of a cleaned table, the counts of the (year, platform)
  groups add up to the count of games; the empty subset gives no group and count 0.
\<close>

theorem group_counts_sum_to_game_count:
  assumes "clean_data parse raw threshold = Inr tbl"
    and "filtered_df tbl genres ratings year_range = Inr sub"
  shows "sum_list (map snd (groupby_size sub)) = game_count sub \<and>
         groupby_size [] = [] \<and> game_count [] = 0"
proof -
  have "Year_of_Release r \<noteq> NaN \<and> Platform r \<noteq> None" if "r \<in> set sub" for r
  proof -
    from assms(2) that have "r \<in> set tbl"
      by (auto dest: filtered_df_subset)
    with assms(1) have "\<not> has_na r" by (auto dest: clean_data_fields)
    then show ?thesis by (simp add: has_na_def)
  qed
  then have "sum_list (map snd (groupby_size sub)) = length sub"
    by (rule groupby_size_total_general)
  then show ?thesis
    by (simp add: game_count_def groupby_size_def)
qed

theorem group_counts_sum_to_game_count_witness:
  "sum_list (map snd (groupby_size [game_ps2, game_x360])) = 2 \<and>
   game_count [game_ps2, game_x360] = 2"
  using group_counts_sum_to_game_count [OF clean_scenario_table scenario_filter]
  by (simp add: game_count_def)

text \<open>
  C10. Every (year, platform) group in the output has a count of at least 1, the count
  is the number of records of the subset with that year and platform, and at least one
  such record exists.
\<close>

theorem groupby_size_groups_nonempty:
  assumes "(k, c) \<in> set (groupby_size sub)"
  shows "1 \<le> c \<and>
         c = length (filter (\<lambda>r. Year_of_Release r = Fin (fst k) \<and> Platform r = Some (snd k)) sub) \<and>
         (\<exists>r \<in> set sub. Year_of_Release r = Fin (fst k) \<and> Platform r = Some (snd k))"
proof -
  from assms have k: "k \<in> set (List.map_filter key_of sub)"
    and c: "c = count_list (List.map_filter key_of sub) k"
    by (auto simp: groupby_size_def Let_def)
  from k obtain r where r: "r \<in> set sub" and kr: "key_of r = Some k"
    by (auto simp: set_map_filter)
  from c have c': "c = length (filter (\<lambda>r. Year_of_Release r = Fin (fst k) \<and> Platform r = Some (snd k)) sub)"
    by (simp only: count_list_map_filter key_of_Some_iff)
  from k have "count_list (List.map_filter key_of sub) k \<noteq> 0"
    by (simp only: count_list_0_iff not_not)
  with c have pos: "1 \<le> c" by simp
  from r kr have ex: "\<exists>r \<in> set sub. Year_of_Release r = Fin (fst k) \<and> Platform r = Some (snd k)"
    by (auto simp only: key_of_Some_iff)
  from pos c' ex show ?thesis by (intro conjI)
qed

theorem groupby_size_groups_nonempty_witness:
  "((2005, ''PS2''), 1) \<in> set (groupby_size [game_ps2, game_x360]) \<and>
   (\<exists>r \<in> set [game_ps2, game_x360]. Year_of_Release r = Fin 2005 \<and> Platform r = Some ''PS2'')"
proof -
  have "((2005, ''PS2''), 1) \<in> set (groupby_size [game_ps2, game_x360])"
    by (simp add: scenario_groups)
  with groupby_size_groups_nonempty [OF this] show ?thesis by simp
qed

text \<open>
  C7, as the specification states it, fails. The two games of 2010 are selected in the
  order X360, PS3, so X360 is the platform seen first; the groups come out in the order
  PS3, X360, which is the order of the platform names.
\<close>

theorem first_seen_order_counterexample:
  "filtered_df scenario_table [''Action'', ''RPG''] [''E'', ''M''] [2010, 2010] =
     Inr [game_x360, game_ps3] \<and>
   groupby_size [game_x360, game_ps3] = [((2010, ''PS3''), 1), ((2010, ''X360''), 1)] \<and>
   \<not> spec_year_then_first_seen [game_x360, game_ps3] (groupby_size [game_x360, game_ps3])"
  by code_simp

text \<open>
  C7, amended. The groups are in strictly ascending order of their keys, the year first
  and the platform name second: years ascend, and groups of one year are in ascending
  order of the platform name.
\<close>

theorem groupby_size_sorted_by_key:
  "sorted_wrt key_less (map fst (groupby_size sub)) \<and>
   sorted (map (\<lambda>g. fst (fst g)) (groupby_size sub))"
proof -
  let ?ks = "sort (remdups (List.map_filter key_of sub))"
  have "sorted ?ks" and "distinct ?ks" by simp_all
  then have strict: "sorted_wrt (<) ?ks"
    by (simp add: strict_sorted_iff)
  have lt: "key_less k k'" if "k < k'" for k k' :: group_key
    using that by (cases k; cases k') (auto simp: key_less_def)
  from strict have "sorted_wrt key_less ?ks"
    by (rule sorted_wrt_mono_rel [rotated]) (rule lt)
  moreover have "sorted (map fst ?ks)"
  proof -
    have le: "fst k \<le> fst k'" if "k < k'" for k k' :: group_key
      using that by (cases k; cases k') auto
    from strict have "sorted_wrt (\<lambda>k k'. fst k \<le> fst k') ?ks"
      by (rule sorted_wrt_mono_rel [rotated]) (rule le)
    then show ?thesis by (simp add: sorted_wrt_map)
  qed
  moreover have "map (\<lambda>g. fst (fst g)) (groupby_size sub) = map fst (map fst (groupby_size sub))"
    by simp
  ultimately show ?thesis by (simp only: groupby_size_keys)
qed

theorem groupby_size_sorted_by_key_witness:
  "sorted_wrt key_less [(2010, ''PS3''), (2010, ''X360'')]"
  using groupby_size_sorted_by_key [of "[game_x360, game_ps3]"]
  by (simp only: groups_of_2010 list.map fst_conv)

end
